theory Spec2Isabelle
  imports Complex_Main "HOL-Library.Product_Lexorder" "HOL-Library.Multiset"
begin

section \<open>Float cells\<close>

text \<open>
  The numeric columns of the trade analyzer are pandas float64 columns. A cell is a
  finite number, an infinity or NaN; pandas uses NaN for a missing value. The
  arithmetic below is the IEEE arithmetic of these columns without rounding and
  without overflow: finite results are exact reals. Zero is unsigned and counts as
  \<open>+0\<close> when it divides. Division never raises here: a vectorised pandas division by
  zero yields an infinity or NaN.
\<close>

datatype fl = Fin real | PInf | NInf | NaN

definition isnan :: "fl \<Rightarrow> bool" where
  "isnan x = (x = NaN)"

definition inf_of :: "bool \<Rightarrow> fl" where
  "inf_of negative = (if negative then NInf else PInf)"

fun is_neg :: "fl \<Rightarrow> bool" where
  "is_neg (Fin x) = (x < 0)"
| "is_neg NInf = True"
| "is_neg PInf = False"
| "is_neg NaN = False"

fun fl_neg :: "fl \<Rightarrow> fl" where
  "fl_neg (Fin x) = Fin (- x)"
| "fl_neg PInf = NInf"
| "fl_neg NInf = PInf"
| "fl_neg NaN = NaN"

fun fl_add :: "fl \<Rightarrow> fl \<Rightarrow> fl" where
  "fl_add NaN y = NaN"
| "fl_add x NaN = NaN"
| "fl_add (Fin a) (Fin b) = Fin (a + b)"
| "fl_add PInf NInf = NaN"
| "fl_add NInf PInf = NaN"
| "fl_add PInf y = PInf"
| "fl_add x PInf = PInf"
| "fl_add NInf y = NInf"
| "fl_add x NInf = NInf"

definition fl_sub :: "fl \<Rightarrow> fl \<Rightarrow> fl" where
  "fl_sub x y = fl_add x (fl_neg y)"

fun fl_mul :: "fl \<Rightarrow> fl \<Rightarrow> fl" where
  "fl_mul NaN y = NaN"
| "fl_mul x NaN = NaN"
| "fl_mul (Fin a) (Fin b) = Fin (a * b)"
| "fl_mul (Fin a) y = (if a = 0 then NaN else inf_of (is_neg (Fin a) \<noteq> is_neg y))"
| "fl_mul x (Fin b) = (if b = 0 then NaN else inf_of (is_neg x \<noteq> is_neg (Fin b)))"
| "fl_mul x y = inf_of (is_neg x \<noteq> is_neg y)"

fun fl_div :: "fl \<Rightarrow> fl \<Rightarrow> fl" where
  "fl_div NaN y = NaN"
| "fl_div x NaN = NaN"
| "fl_div (Fin a) (Fin b) =
     (if b \<noteq> 0 then Fin (a / b) else if a = 0 then NaN else inf_of (a < 0))"
| "fl_div (Fin a) y = Fin 0"
| "fl_div x (Fin b) = inf_of (is_neg x \<noteq> (b < 0))"
| "fl_div x y = NaN"

text \<open>Comparisons: every comparison with NaN is false.\<close>

fun fl_lt :: "fl \<Rightarrow> fl \<Rightarrow> bool" where
  "fl_lt NaN y = False"
| "fl_lt x NaN = False"
| "fl_lt (Fin a) (Fin b) = (a < b)"
| "fl_lt PInf y = False"
| "fl_lt x NInf = False"
| "fl_lt x y = True"

fun fl_le :: "fl \<Rightarrow> fl \<Rightarrow> bool" where
  "fl_le NaN y = False"
| "fl_le x NaN = False"
| "fl_le (Fin a) (Fin b) = (a \<le> b)"
| "fl_le NInf y = True"
| "fl_le x PInf = True"
| "fl_le x y = False"

definition fl_gt :: "fl \<Rightarrow> fl \<Rightarrow> bool" where
  "fl_gt x y = fl_lt y x"

definition fl_ge :: "fl \<Rightarrow> fl \<Rightarrow> bool" where
  "fl_ge x y = fl_le y x"

fun fl_abs :: "fl \<Rightarrow> fl" where
  "fl_abs (Fin x) = Fin \<bar>x\<bar>"
| "fl_abs PInf = PInf"
| "fl_abs NInf = PInf"
| "fl_abs NaN = NaN"

text \<open>\<^verbatim>\<open>Series.sum()\<close> and \<^verbatim>\<open>Series.mean()\<close> skip NaN cells (\<^verbatim>\<open>skipna=True\<close>);
  the mean of no cells is NaN.\<close>

primrec fl_sum :: "fl list \<Rightarrow> fl" where
  "fl_sum [] = Fin 0"
| "fl_sum (x # xs) = fl_add x (fl_sum xs)"

definition mean :: "fl list \<Rightarrow> fl" where
  "mean xs =
     (let ys = filter (\<lambda>x. \<not> isnan x) xs
      in if ys = [] then NaN else fl_div (fl_sum ys) (Fin (real (length ys))))"

text \<open>
  \<^verbatim>\<open>sort_values(col)\<close> and \<^verbatim>\<open>sort_values(col, ascending=False)\<close>: NaN cells go last
  in both directions. pandas leaves the order of rows with equal keys open (its
  default sort is not stable); the model keeps them in their previous order.
\<close>

fun asc_key :: "fl \<Rightarrow> nat \<times> real" where
  "asc_key NInf = (0, 0)"
| "asc_key (Fin x) = (1, x)"
| "asc_key PInf = (2, 0)"
| "asc_key NaN = (3, 0)"

fun desc_key :: "fl \<Rightarrow> nat \<times> real" where
  "desc_key PInf = (0, 0)"
| "desc_key (Fin x) = (1, - x)"
| "desc_key NInf = (2, 0)"
| "desc_key NaN = (3, 0)"

definition sort_values :: "('a \<Rightarrow> fl) \<Rightarrow> bool \<Rightarrow> 'a list \<Rightarrow> 'a list" where
  "sort_values col ascending xs =
     (if ascending then sort_key (\<lambda>r. asc_key (col r)) xs
      else sort_key (\<lambda>r. desc_key (col r)) xs)"

text \<open>\<^verbatim>\<open>head(n)\<close>: the first \<open>n\<close> rows, or all but the last \<open>-n\<close> when \<open>n\<close> is negative.\<close>

definition head :: "int \<Rightarrow> 'a list \<Rightarrow> 'a list" where
  "head n xs = (if 0 \<le> n then take (nat n) xs else take (length xs - nat (- n)) xs)"

section \<open>Configuration (fantasy\_config.py)\<close>

text \<open>
  The analyzer reads four module attributes of \<^verbatim>\<open>fantasy_config\<close>. The module
  defines three of them; \<^verbatim>\<open>VALUE_MATCH_TOLERANCE\<close> is read by
  \<^verbatim>\<open>suggest_trade_pairs\<close> but not defined by the module, so the attribute is optional
  here and reading it when it is absent is an \<^verbatim>\<open>AttributeError\<close>.
\<close>

record config =
  MIN_DISCOUNT_THRESHOLD :: real
  MIN_PREMIUM_THRESHOLD :: real
  UNTOUCHABLE_PLAYERS :: "string list"
  VALUE_MATCH_TOLERANCE :: "real option"

definition fantasy_config :: config where
  "fantasy_config =
     \<lparr> MIN_DISCOUNT_THRESHOLD = 10, MIN_PREMIUM_THRESHOLD = - 10,
       UNTOUCHABLE_PLAYERS = [], VALUE_MATCH_TOLERANCE = None \<rparr>"

section \<open>Tables\<close>

datatype error =
    KeyError string
  | AttributeError string
  | TypeError string
  | ZeroDivisionError
  | SystemExit int

text \<open>
  The roster table: the columns the analyzer reads. Its other columns (player id,
  team id, wins, losses) pass through the merge untouched and are left out.
\<close>

record roster_row =
  r_player_name :: string
  r_position :: string
  r_team_name :: string

definition roster_columns :: "string list" where
  "roster_columns = [''player_name'', ''position'', ''team_name'']"

text \<open>
  The perceived and forecasted tables come from different providers with different
  columns, and the merge asks which columns are there: a table is its column names
  and its rows. A cell of a column that the table does not have is never read.
\<close>

record perceived_row =
  p_player_name :: string
  p_perceived_value :: fl
  p_perceived_value_adjusted :: fl
  p_overall_rank :: fl

record perceived_table =
  p_columns :: "string list"
  p_rows :: "perceived_row list"

record forecasted_row =
  f_player_name :: string
  f_rest_of_season_projection :: fl
  f_forecasted_value :: fl

record forecasted_table =
  f_columns :: "string list"
  f_rows :: "forecasted_row list"

text \<open>
  The analyzer's working table \<^verbatim>\<open>merged_df\<close>. The three methods of the pipeline each
  add columns to it, so the table a method finds is at one of three stages, and a
  method that reads a column of a later stage raises \<^verbatim>\<open>KeyError\<close>. A row carries a
  field for every column; the fields of columns not yet added hold a default and
  are not read.
\<close>

datatype stage = Merged | Normalized | Classified

record row =
  player_name :: string
  position :: string
  team_name :: string
  perceived_value :: fl
  perceived_value_adjusted :: fl
  overall_rank :: fl
  forecasted_value :: fl
  perceived_normalized :: fl
  forecasted_normalized :: fl
  discount_premium :: fl
  value_category :: string
  interpretation_str :: string

record frame =
  stage :: stage
  rows :: "row list"

text \<open>\<^verbatim>\<open>DataFrame.empty\<close>: the table has no rows (a working table always has
  columns).\<close>

definition empty :: "frame \<Rightarrow> bool" where
  "empty df = (rows df = [])"

record analyzer =
  roster_df :: "roster_row list"
  perceived_df :: perceived_table
  forecasted_df :: forecasted_table
  merged_df :: "frame option"

definition TradeAnalyzer :: "roster_row list \<Rightarrow> perceived_table \<Rightarrow> forecasted_table \<Rightarrow> analyzer" where
  "TradeAnalyzer roster perceived forecasted =
     \<lparr> roster_df = roster, perceived_df = perceived, forecasted_df = forecasted,
       merged_df = None \<rparr>"

section \<open>merge\_data\_sources\<close>

text \<open>
  \<^verbatim>\<open>df.merge(right, on='player_name', how='left')\<close>: every left row, in order, once
  for each right row with the same name (in the right table's order), or once with
  NaN in the right table's columns when no right row has that name.
\<close>

definition merge_perceived :: "roster_row list \<Rightarrow> perceived_row list \<Rightarrow> row list" where
  "merge_perceived left right =
     concat (map (\<lambda>l.
       let base = \<lparr> player_name = r_player_name l, position = r_position l,
                    team_name = r_team_name l,
                    perceived_value = NaN, perceived_value_adjusted = NaN,
                    overall_rank = NaN, forecasted_value = NaN,
                    perceived_normalized = NaN, forecasted_normalized = NaN,
                    discount_premium = NaN, value_category = [], interpretation_str = [] \<rparr>;
           ms = filter (\<lambda>p. p_player_name p = r_player_name l) right
       in if ms = [] then [base]
          else map (\<lambda>p. base\<lparr> perceived_value := p_perceived_value p,
                               perceived_value_adjusted := p_perceived_value_adjusted p,
                               overall_rank := p_overall_rank p \<rparr>) ms) left)"

definition merge_forecasted :: "row list \<Rightarrow> (forecasted_row \<Rightarrow> fl) \<Rightarrow> forecasted_row list \<Rightarrow> row list" where
  "merge_forecasted left col right =
     concat (map (\<lambda>l.
       let ms = filter (\<lambda>f. f_player_name f = player_name l) right
       in if ms = [] then [l\<lparr> forecasted_value := NaN \<rparr>]
          else map (\<lambda>f. l\<lparr> forecasted_value := col f \<rparr>) ms) left)"

text \<open>\<^verbatim>\<open>table[[c1, c2, ...]]\<close> raises \<^verbatim>\<open>KeyError\<close> when a selected column is missing.\<close>

definition missing_column :: "string list \<Rightarrow> string list \<Rightarrow> string option" where
  "missing_column wanted cols = find (\<lambda>c. c \<notin> set cols) wanted"

definition dropna :: "row list \<Rightarrow> row list" where
  "dropna rs = filter (\<lambda>r. \<not> isnan (perceived_value r) \<and> \<not> isnan (forecasted_value r)) rs"

definition merge_data_sources :: "analyzer \<Rightarrow> error + (frame \<times> analyzer)" where
  "merge_data_sources self =
     (case missing_column
             [''player_name'', ''perceived_value'', ''perceived_value_adjusted'', ''overall_rank'']
             (p_columns (perceived_df self)) of
        Some c \<Rightarrow> Inl (KeyError c)
      | None \<Rightarrow>
        let df = merge_perceived (roster_df self) (p_rows (perceived_df self));
            cols = roster_columns @ [''perceived_value'', ''perceived_value_adjusted'', ''overall_rank''];
            fcols = f_columns (forecasted_df self)
        in if ''rest_of_season_projection'' \<in> set fcols then
             (if ''player_name'' \<notin> set fcols then Inl (KeyError ''player_name'')
              else
                let df = merge_forecasted df f_rest_of_season_projection (f_rows (forecasted_df self));
                    cols = cols @ [''forecasted_value''];
                    df = dropna df;
                    df = (if ''perceived_value_adjusted'' \<in> set cols
                          then map (\<lambda>r. r\<lparr> perceived_value := perceived_value_adjusted r \<rparr>) df
                          else df);
                    out = \<lparr> stage = Merged, rows = df \<rparr>
                in Inr (out, self\<lparr> merged_df := Some out \<rparr>))
           else if ''forecasted_value'' \<in> set fcols then
             (if ''player_name'' \<notin> set fcols then Inl (KeyError ''player_name'')
              else
                let df = merge_forecasted df f_forecasted_value (f_rows (forecasted_df self));
                    cols = cols @ [''forecasted_value''];
                    df = dropna df;
                    df = (if ''perceived_value_adjusted'' \<in> set cols
                          then map (\<lambda>r. r\<lparr> perceived_value := perceived_value_adjusted r \<rparr>) df
                          else df);
                    out = \<lparr> stage = Merged, rows = df \<rparr>
                in Inr (out, self\<lparr> merged_df := Some out \<rparr>))
           else Inl (KeyError ''forecasted_value''))"

section \<open>normalize\_values and calculate\_discount\_premium\<close>

text \<open>
  Both methods start with \<^verbatim>\<open>self.merged_df.copy()\<close>, an \<^verbatim>\<open>AttributeError\<close> while
  \<^verbatim>\<open>merged_df\<close> is still \<^verbatim>\<open>None\<close>. The divisions are vectorised column operations.
\<close>

definition normalize_values :: "analyzer \<Rightarrow> error + (frame \<times> analyzer)" where
  "normalize_values self =
     (case merged_df self of
        None \<Rightarrow> Inl (AttributeError ''copy'')
      | Some df \<Rightarrow>
        let avg_perceived = mean (map perceived_value (rows df));
            avg_forecasted = mean (map forecasted_value (rows df));
            out = \<lparr> stage = (if stage df = Merged then Normalized else stage df),
                    rows = map (\<lambda>r. r\<lparr>
                      perceived_normalized := fl_mul (fl_div (perceived_value r) avg_perceived) (Fin 100),
                      forecasted_normalized := fl_mul (fl_div (forecasted_value r) avg_forecasted) (Fin 100) \<rparr>)
                      (rows df) \<rparr>
        in Inr (out, self\<lparr> merged_df := Some out \<rparr>))"

definition categorize :: "config \<Rightarrow> fl \<Rightarrow> string" where
  "categorize cfg x =
     (if fl_gt x (Fin (MIN_DISCOUNT_THRESHOLD cfg)) then ''Undervalued''
      else if fl_lt x (Fin (MIN_PREMIUM_THRESHOLD cfg)) then ''Overvalued''
      else ''Fair Value'')"

definition interpret_discount :: "fl \<Rightarrow> string" where
  "interpret_discount v =
     (if fl_gt v (Fin 30) then ''Severely undervalued - BUY''
      else if fl_gt v (Fin 10) then ''Undervalued - Good buy target''
      else if fl_gt v (Fin (- 10)) then ''Fair value''
      else if fl_gt v (Fin (- 30)) then ''Overvalued - Good sell candidate''
      else ''Severely overvalued - SELL'')"

definition reddit_formula :: "row \<Rightarrow> fl" where
  "reddit_formula r =
     fl_mul (fl_div (fl_sub (forecasted_normalized r) (perceived_normalized r))
                    (forecasted_normalized r)) (Fin 100)"

definition calculate_discount_premium :: "config \<Rightarrow> analyzer \<Rightarrow> error + (frame \<times> analyzer)" where
  "calculate_discount_premium cfg self =
     (case merged_df self of
        None \<Rightarrow> Inl (AttributeError ''copy'')
      | Some df \<Rightarrow>
        if stage df = Merged then Inl (KeyError ''forecasted_normalized'')
        else
          let out = \<lparr> stage = Classified,
                      rows = map (\<lambda>r. r\<lparr>
                        discount_premium := reddit_formula r,
                        value_category := categorize cfg (reddit_formula r),
                        interpretation_str := interpret_discount (reddit_formula r) \<rparr>)
                        (rows df) \<rparr>
          in Inr (out, self\<lparr> merged_df := Some out \<rparr>))"

section \<open>Team views and trade targets\<close>

text \<open>
  \<^verbatim>\<open>self.merged_df[...]\<close> is a \<^verbatim>\<open>TypeError\<close> while \<^verbatim>\<open>merged_df\<close> is \<^verbatim>\<open>None\<close>; the
  column \<^verbatim>\<open>discount_premium\<close> exists from the classified stage on.
\<close>

definition analyze_team :: "config \<Rightarrow> analyzer \<Rightarrow> string \<Rightarrow> error + (frame \<times> frame)" where
  "analyze_team cfg self team =
     (case merged_df self of
        None \<Rightarrow> Inl (TypeError ''NoneType'')
      | Some df \<Rightarrow>
        let team_df = filter (\<lambda>r. team_name r = team) (rows df)
        in if stage df \<noteq> Classified then Inl (KeyError ''discount_premium'')
           else
             let overvalued = sort_values discount_premium True
                   (filter (\<lambda>r. fl_lt (discount_premium r) (Fin (MIN_PREMIUM_THRESHOLD cfg))) team_df);
                 undervalued = sort_values discount_premium False
                   (filter (\<lambda>r. fl_gt (discount_premium r) (Fin (MIN_DISCOUNT_THRESHOLD cfg))) team_df)
             in Inr (\<lparr> stage = Classified, rows = overvalued \<rparr>,
                     \<lparr> stage = Classified, rows = undervalued \<rparr>))"

definition get_team_data :: "analyzer \<Rightarrow> string \<Rightarrow> error + frame" where
  "get_team_data self team =
     (case merged_df self of
        None \<Rightarrow> Inl (TypeError ''NoneType'')
      | Some df \<Rightarrow> Inr (df\<lparr> rows := filter (\<lambda>r. team_name r = team) (rows df) \<rparr>))"

text \<open>
  \<^verbatim>\<open>if position_filter:\<close> and \<^verbatim>\<open>if config.UNTOUCHABLE_PLAYERS:\<close> test truthiness:
  \<^verbatim>\<open>None\<close>, the empty string and the empty list all skip the filter.
\<close>

definition find_trade_targets :: "config \<Rightarrow> analyzer \<Rightarrow> string \<Rightarrow> string option \<Rightarrow> error + frame" where
  "find_trade_targets cfg self your_team position_filter =
     (case merged_df self of
        None \<Rightarrow> Inl (TypeError ''NoneType'')
      | Some df \<Rightarrow>
        let other_teams = filter (\<lambda>r. team_name r \<noteq> your_team) (rows df)
        in if stage df \<noteq> Classified then Inl (KeyError ''discount_premium'')
           else
             let targets = filter (\<lambda>r. fl_gt (discount_premium r) (Fin (MIN_DISCOUNT_THRESHOLD cfg)))
                             other_teams;
                 targets = (case position_filter of
                              None \<Rightarrow> targets
                            | Some p \<Rightarrow> if p \<noteq> [] then filter (\<lambda>r. position r = p) targets
                                        else targets);
                 targets = (if UNTOUCHABLE_PLAYERS cfg \<noteq> []
                            then filter (\<lambda>r. player_name r \<notin> set (UNTOUCHABLE_PLAYERS cfg)) targets
                            else targets);
                 targets = sort_values discount_premium False targets
             in Inr \<lparr> stage = Classified, rows = targets \<rparr>)"

section \<open>suggest\_trade\_pairs\<close>

record suggestion =
  give_player :: string
  give_position :: string
  give_perceived :: fl
  give_forecasted :: fl
  give_discount :: fl
  get_player :: string
  get_position :: string
  get_team :: string
  get_perceived :: fl
  get_forecasted :: fl
  get_discount :: fl
  value_gain :: fl
  value_gain_pct :: fl

text \<open>
  Inside the loops the cells are scalars taken from \<^verbatim>\<open>iterrows()\<close>: rows of a table
  with text and number columns hold Python floats, and a Python float division by
  zero raises \<^verbatim>\<open>ZeroDivisionError\<close>.
\<close>

definition py_truediv :: "fl \<Rightarrow> fl \<Rightarrow> error + fl" where
  "py_truediv a b = (if b = Fin 0 then Inl ZeroDivisionError else Inr (fl_div a b))"

definition gain_pct :: "fl \<Rightarrow> row \<Rightarrow> error + fl" where
  "gain_pct gain your_player =
     (if fl_gt (forecasted_normalized your_player) (Fin 0)
      then (case py_truediv gain (forecasted_normalized your_player) of
              Inl e \<Rightarrow> Inl e
            | Inr q \<Rightarrow> Inr (fl_mul q (Fin 100)))
      else Inr (Fin 0))"

text \<open>The inner loop, over \<^verbatim>\<open>similar.head(3)\<close>, returns the suggestions it appends.\<close>

fun targets_loop :: "row \<Rightarrow> row list \<Rightarrow> error + suggestion list" where
  "targets_loop your_player [] = Inr []"
| "targets_loop your_player (target # others) =
     (let gain = fl_sub (forecasted_normalized target) (forecasted_normalized your_player)
      in if fl_gt gain (Fin 5) then
           (case gain_pct gain your_player of
              Inl e \<Rightarrow> Inl e
            | Inr pct \<Rightarrow>
              (case targets_loop your_player others of
                 Inl e \<Rightarrow> Inl e
               | Inr rest \<Rightarrow> Inr (
                   \<lparr> give_player = player_name your_player,
                     give_position = position your_player,
                     give_perceived = perceived_normalized your_player,
                     give_forecasted = forecasted_normalized your_player,
                     give_discount = discount_premium your_player,
                     get_player = player_name target,
                     get_position = position target,
                     get_team = team_name target,
                     get_perceived = perceived_normalized target,
                     get_forecasted = forecasted_normalized target,
                     get_discount = discount_premium target,
                     value_gain = gain,
                     value_gain_pct = pct \<rparr> # rest)))
         else targets_loop your_player others)"

definition similar_targets :: "real \<Rightarrow> row \<Rightarrow> row list \<Rightarrow> row list" where
  "similar_targets tolerance your_player trade_targets =
     filter (\<lambda>t.
        fl_ge (perceived_normalized t)
              (fl_mul (perceived_normalized your_player) (Fin (1 - tolerance))) \<and>
        fl_le (perceived_normalized t)
              (fl_mul (perceived_normalized your_player) (Fin (1 + tolerance))))
       trade_targets"

text \<open>The outer loop, over the rows of \<^verbatim>\<open>your_overvalued\<close>; each round reads the
  tolerance from the configuration first.\<close>

fun players_loop :: "config \<Rightarrow> row list \<Rightarrow> row list \<Rightarrow> error + suggestion list" where
  "players_loop cfg trade_targets [] = Inr []"
| "players_loop cfg trade_targets (your_player # others) =
     (case VALUE_MATCH_TOLERANCE cfg of
        None \<Rightarrow> Inl (AttributeError ''VALUE_MATCH_TOLERANCE'')
      | Some tolerance \<Rightarrow>
        (case targets_loop your_player (take 3 (similar_targets tolerance your_player trade_targets)) of
           Inl e \<Rightarrow> Inl e
         | Inr found \<Rightarrow>
           (case players_loop cfg trade_targets others of
              Inl e \<Rightarrow> Inl e
            | Inr rest \<Rightarrow> Inr (found @ rest))))"

text \<open>The result is an empty table or the table of the suggestions: a list of them.\<close>

definition suggest_trade_pairs :: "config \<Rightarrow> analyzer \<Rightarrow> string \<Rightarrow> int \<Rightarrow> error + suggestion list" where
  "suggest_trade_pairs cfg self your_team max_suggestions =
     (case analyze_team cfg self your_team of
        Inl e \<Rightarrow> Inl e
      | Inr (your_overvalued, your_undervalued) \<Rightarrow>
        (case find_trade_targets cfg self your_team None of
           Inl e \<Rightarrow> Inl e
         | Inr trade_targets \<Rightarrow>
           if empty your_overvalued \<or> empty trade_targets then Inr []
           else
             (case players_loop cfg (rows trade_targets) (rows your_overvalued) of
                Inl e \<Rightarrow> Inl e
              | Inr suggestions \<Rightarrow>
                if suggestions = [] then Inr []
                else Inr (head max_suggestions (sort_values value_gain False suggestions)))))"

section \<open>Callers\<close>

text \<open>
  \<^verbatim>\<open>show_my_team.py\<close> runs the three methods in a row on one analyzer; the result is
  the classified table and the analyzer holding it.
\<close>

definition pipeline :: "config \<Rightarrow> analyzer \<Rightarrow> error + (frame \<times> analyzer)" where
  "pipeline cfg analyzer =
     (case merge_data_sources analyzer of
        Inl e \<Rightarrow> Inl e
      | Inr (merged, analyzer) \<Rightarrow>
        (case normalize_values analyzer of
           Inl e \<Rightarrow> Inl e
         | Inr (normalized, analyzer) \<Rightarrow> calculate_discount_premium cfg analyzer))"

text \<open>
  \<^verbatim>\<open>main\<close>, from the point where the three tables have been fetched: it leaves
  with \<^verbatim>\<open>sys.exit(1)\<close> when the perceived or the forecasted table is empty (a table
  with no rows or no columns), builds the analyzer, merges, leaves with
  \<^verbatim>\<open>sys.exit(1)\<close> when the merged table is empty, and then normalizes and classifies.
\<close>

definition main_analysis ::
  "config \<Rightarrow> roster_row list \<Rightarrow> perceived_table \<Rightarrow> forecasted_table \<Rightarrow> error + analyzer" where
  "main_analysis cfg rosters_df perceived forecasted =
     (if p_columns perceived = [] \<or> p_rows perceived = [] then Inl (SystemExit 1)
      else if f_columns forecasted = [] \<or> f_rows forecasted = [] then Inl (SystemExit 1)
      else
        (case merge_data_sources (TradeAnalyzer rosters_df perceived forecasted) of
           Inl e \<Rightarrow> Inl e
         | Inr (merged, analyzer) \<Rightarrow>
           if empty merged then Inl (SystemExit 1)
           else
             (case normalize_values analyzer of
                Inl e \<Rightarrow> Inl e
              | Inr (normalized, analyzer) \<Rightarrow>
                (case calculate_discount_premium cfg analyzer of
                   Inl e \<Rightarrow> Inl e
                 | Inr (classified, analyzer) \<Rightarrow> Inr analyzer))))"

section \<open>Example leagues\<close>

text \<open>
  Concrete inputs for the statements below. The perceived table has the columns
  that \<^verbatim>\<open>FantasyCalcClient.get_redraft_values\<close> produces, the forecasted table those of
  the ESPN projections.
\<close>

definition fantasycalc_columns :: "string list" where
  "fantasycalc_columns =
     [''player_name'', ''position'', ''nfl_team'', ''perceived_value'', ''overall_rank'',
      ''position_rank'', ''trend_30day'', ''perceived_value_adjusted'']"

definition espn_columns :: "string list" where
  "espn_columns =
     [''player_id'', ''player_name'', ''season_projection'', ''season_actual'',
      ''rest_of_season_projection'', ''avg_per_week'']"

definition rostered :: "string \<Rightarrow> string \<Rightarrow> string \<Rightarrow> roster_row" where
  "rostered name pos team = \<lparr> r_player_name = name, r_position = pos, r_team_name = team \<rparr>"

definition valued :: "string \<Rightarrow> fl \<Rightarrow> fl \<Rightarrow> perceived_row" where
  "valued name raw adjusted =
     \<lparr> p_player_name = name, p_perceived_value = raw,
       p_perceived_value_adjusted = adjusted, p_overall_rank = Fin 1 \<rparr>"

definition projected :: "string \<Rightarrow> fl \<Rightarrow> forecasted_row" where
  "projected name v =
     \<lparr> f_player_name = name, f_rest_of_season_projection = v, f_forecasted_value = NaN \<rparr>"

definition merged_row :: "string \<Rightarrow> string \<Rightarrow> string \<Rightarrow> fl \<Rightarrow> fl \<Rightarrow> fl \<Rightarrow> row" where
  "merged_row name pos team pv adjusted fv =
     \<lparr> player_name = name, position = pos, team_name = team,
       perceived_value = pv, perceived_value_adjusted = adjusted,
       overall_rank = Fin 1, forecasted_value = fv,
       perceived_normalized = NaN, forecasted_normalized = NaN,
       discount_premium = NaN, value_category = [], interpretation_str = [] \<rparr>"

text \<open>
  A league of two teams. Alice is a kicker: her raw value 190 is adjusted by the
  scarcity factor 0.5 to 95.
\<close>

definition league :: analyzer where
  "league = TradeAnalyzer
     [rostered ''Alice'' ''K'' ''TeamX'', rostered ''Dave'' ''WR'' ''TeamY'']
     \<lparr> p_columns = fantasycalc_columns,
       p_rows = [valued ''Alice'' (Fin 190) (Fin 95), valued ''Dave'' (Fin 105) (Fin 105)] \<rparr>
     \<lparr> f_columns = espn_columns,
       f_rows = [projected ''Alice'' (Fin 50), projected ''Dave'' (Fin 150)] \<rparr>"

definition league_merged :: frame where
  "league_merged = \<lparr> stage = Merged, rows =
     [merged_row ''Alice'' ''K'' ''TeamX'' (Fin 95) (Fin 95) (Fin 50),
      merged_row ''Dave'' ''WR'' ''TeamY'' (Fin 105) (Fin 105) (Fin 150)] \<rparr>"

definition league_normalized :: frame where
  "league_normalized = \<lparr> stage = Normalized, rows =
     [(merged_row ''Alice'' ''K'' ''TeamX'' (Fin 95) (Fin 95) (Fin 50))
        \<lparr> perceived_normalized := Fin 95, forecasted_normalized := Fin 50 \<rparr>,
      (merged_row ''Dave'' ''WR'' ''TeamY'' (Fin 105) (Fin 105) (Fin 150))
        \<lparr> perceived_normalized := Fin 105, forecasted_normalized := Fin 150 \<rparr>] \<rparr>"

definition alice :: row where
  "alice = (merged_row ''Alice'' ''K'' ''TeamX'' (Fin 95) (Fin 95) (Fin 50))
     \<lparr> perceived_normalized := Fin 95, forecasted_normalized := Fin 50,
       discount_premium := Fin (- 90), value_category := ''Overvalued'',
       interpretation_str := ''Severely overvalued - SELL'' \<rparr>"

definition dave :: row where
  "dave = (merged_row ''Dave'' ''WR'' ''TeamY'' (Fin 105) (Fin 105) (Fin 150))
     \<lparr> perceived_normalized := Fin 105, forecasted_normalized := Fin 150,
       discount_premium := Fin 30, value_category := ''Undervalued'',
       interpretation_str := ''Undervalued - Good buy target'' \<rparr>"

definition league_classified :: frame where
  "league_classified = \<lparr> stage = Classified, rows = [alice, dave] \<rparr>"

definition tolerant_config :: config where
  "tolerant_config = fantasy_config\<lparr> VALUE_MATCH_TOLERANCE := Some (15 / 100) \<rparr>"

definition alice_for_dave :: suggestion where
  "alice_for_dave =
     \<lparr> give_player = ''Alice'', give_position = ''K'',
       give_perceived = Fin 95, give_forecasted = Fin 50, give_discount = Fin (- 90),
       get_player = ''Dave'', get_position = ''WR'', get_team = ''TeamY'',
       get_perceived = Fin 105, get_forecasted = Fin 150, get_discount = Fin 30,
       value_gain = Fin 100, value_gain_pct = Fin 200 \<rparr>"




text \<open>
  A league with two players whose rest-of-season projection is 0: Alice still has a
  market value, Carl has none.
\<close>

definition injured_league :: analyzer where
  "injured_league = TradeAnalyzer
     [rostered ''Alice'' ''WR'' ''TeamX'', rostered ''Carl'' ''WR'' ''TeamX'',
      rostered ''Bob'' ''WR'' ''TeamY'']
     \<lparr> p_columns = fantasycalc_columns,
       p_rows = [valued ''Alice'' (Fin 100) (Fin 100), valued ''Carl'' (Fin 0) (Fin 0),
                 valued ''Bob'' (Fin 200) (Fin 200)] \<rparr>
     \<lparr> f_columns = espn_columns,
       f_rows = [projected ''Alice'' (Fin 0), projected ''Carl'' (Fin 0),
                 projected ''Bob'' (Fin 300)] \<rparr>"

definition labels :: "row \<Rightarrow> string \<times> fl \<times> fl \<times> fl \<times> string \<times> string" where
  "labels r = (player_name r, perceived_normalized r, forecasted_normalized r,
               discount_premium r, value_category r, interpretation_str r)"

text \<open>A perceived table whose row has a raw value but no adjusted value.\<close>

definition unadjusted_league :: analyzer where
  "unadjusted_league = TradeAnalyzer
     [rostered ''Alice'' ''K'' ''TeamX'']
     \<lparr> p_columns = fantasycalc_columns, p_rows = [valued ''Alice'' (Fin 100) NaN] \<rparr>
     \<lparr> f_columns = espn_columns, f_rows = [projected ''Alice'' (Fin 50)] \<rparr>"

definition unadjusted_merged :: frame where
  "unadjusted_merged = \<lparr> stage = Merged, rows =
     [merged_row ''Alice'' ''K'' ''TeamX'' NaN NaN (Fin 50)] \<rparr>"

text \<open>A roster whose only player, Carol, is in neither value table.\<close>

definition carol_roster :: "roster_row list" where
  "carol_roster = [rostered ''Carol'' ''RB'' ''TeamX'']"

definition market :: perceived_table where
  "market = \<lparr> p_columns = fantasycalc_columns, p_rows = [valued ''Alice'' (Fin 190) (Fin 95)] \<rparr>"

definition projections :: forecasted_table where
  "projections = \<lparr> f_columns = espn_columns, f_rows = [projected ''Alice'' (Fin 50)] \<rparr>"

definition no_rows :: frame where
  "no_rows = \<lparr> stage = Merged, rows = [] \<rparr>"

text \<open>
  Complete coverage of a roster entry, in the words of the specification: the
  player has a perceived value in the perceived table and a forecasted value in the
  forecasted table (in the column that the merge reads).
\<close>

definition forecast_column :: "forecasted_table \<Rightarrow> forecasted_row \<Rightarrow> fl" where
  "forecast_column forecasted =
     (if ''rest_of_season_projection'' \<in> set (f_columns forecasted)
      then f_rest_of_season_projection else f_forecasted_value)"

definition complete_coverage :: "perceived_table \<Rightarrow> forecasted_table \<Rightarrow> roster_row \<Rightarrow> bool" where
  "complete_coverage perceived forecasted l =
     ((\<exists>p \<in> set (p_rows perceived).
         p_player_name p = r_player_name l \<and> \<not> isnan (p_perceived_value p)) \<and>
      (\<exists>f \<in> set (f_rows forecasted).
         f_player_name f = r_player_name l \<and> \<not> isnan (forecast_column forecasted f)))"


text \<open>
  The classified table of a league in which Alice's projection is 0 (with Dave's
  at 300 the mean projection is 150): her \<open>forecasted_normalized\<close> is 0.
\<close>

definition benched_alice :: row where
  "benched_alice = (merged_row ''Alice'' ''K'' ''TeamX'' (Fin 95) (Fin 95) (Fin 0))
     \<lparr> perceived_normalized := Fin 95, forecasted_normalized := Fin 0,
       discount_premium := NInf, value_category := ''Overvalued'',
       interpretation_str := ''Severely overvalued - SELL'' \<rparr>"

definition rising_dave :: row where
  "rising_dave = (merged_row ''Dave'' ''WR'' ''TeamY'' (Fin 105) (Fin 105) (Fin 300))
     \<lparr> perceived_normalized := Fin 105, forecasted_normalized := Fin 200,
       discount_premium := Fin (95 / 2), value_category := ''Undervalued'',
       interpretation_str := ''Severely undervalued - BUY'' \<rparr>"

definition benched_league :: analyzer where
  "benched_league = (TradeAnalyzer
     [rostered ''Alice'' ''K'' ''TeamX'', rostered ''Dave'' ''WR'' ''TeamY'']
     \<lparr> p_columns = fantasycalc_columns,
       p_rows = [valued ''Alice'' (Fin 190) (Fin 95), valued ''Dave'' (Fin 105) (Fin 105)] \<rparr>
     \<lparr> f_columns = espn_columns,
       f_rows = [projected ''Alice'' (Fin 0), projected ''Dave'' (Fin 300)] \<rparr>)
     \<lparr> merged_df := Some \<lparr> stage = Classified, rows = [benched_alice, rising_dave] \<rparr> \<rparr>"

definition benched_alice_for_dave :: suggestion where
  "benched_alice_for_dave =
     \<lparr> give_player = ''Alice'', give_position = ''K'',
       give_perceived = Fin 95, give_forecasted = Fin 0, give_discount = NInf,
       get_player = ''Dave'', get_position = ''WR'', get_team = ''TeamY'',
       get_perceived = Fin 105, get_forecasted = Fin 200, get_discount = Fin (95 / 2),
       value_gain = Fin 200, value_gain_pct = Fin 0 \<rparr>"

section \<open>The example leagues, evaluated\<close>

lemmas table_defs = Let_def TradeAnalyzer_def fantasycalc_columns_def espn_columns_def
  rostered_def valued_def projected_def merged_row_def roster_columns_def

lemmas merge_defs = merge_data_sources_def missing_column_def merge_perceived_def
  merge_forecasted_def dropna_def isnan_def

lemma league_merge:
  "merge_data_sources league = Inr (league_merged, league\<lparr> merged_df := Some league_merged \<rparr>)"
  by (simp add: league_def league_merged_def table_defs merge_defs)

lemma league_normalize:
  "normalize_values (league\<lparr> merged_df := Some league_merged \<rparr>)
     = Inr (league_normalized, league\<lparr> merged_df := Some league_normalized \<rparr>)"
  by (simp add: league_def league_merged_def league_normalized_def table_defs
      normalize_values_def mean_def isnan_def)

lemma league_classify:
  "calculate_discount_premium fantasy_config (league\<lparr> merged_df := Some league_normalized \<rparr>)
     = Inr (league_classified, league\<lparr> merged_df := Some league_classified \<rparr>)"
  by (simp add: league_def league_normalized_def league_classified_def alice_def dave_def
      table_defs calculate_discount_premium_def reddit_formula_def categorize_def
      interpret_discount_def fantasy_config_def fl_sub_def fl_gt_def)

lemma league_pipeline:
  "pipeline fantasy_config league
     = Inr (league_classified, league\<lparr> merged_df := Some league_classified \<rparr>)"
  by (simp add: pipeline_def league_merge league_normalize league_classify)

section \<open>Normalization\<close>



lemma fl_sum_map_Fin: "fl_sum (map Fin vs) = Fin (sum_list vs)"
  by (induction vs) auto













section \<open>Classification\<close>

lemma fl_gt_not_nan: "fl_gt x (Fin t) \<Longrightarrow> x \<noteq> NaN"
  by (cases x) (auto simp: fl_gt_def)


lemma categorize_cases:
  "(categorize cfg x = ''Undervalued'' \<longleftrightarrow> fl_gt x (Fin (MIN_DISCOUNT_THRESHOLD cfg))) \<and>
   (categorize cfg x = ''Overvalued'' \<longleftrightarrow>
      \<not> fl_gt x (Fin (MIN_DISCOUNT_THRESHOLD cfg)) \<and> fl_lt x (Fin (MIN_PREMIUM_THRESHOLD cfg))) \<and>
   (categorize cfg x = ''Fair Value'' \<longleftrightarrow>
      \<not> fl_gt x (Fin (MIN_DISCOUNT_THRESHOLD cfg)) \<and> \<not> fl_lt x (Fin (MIN_PREMIUM_THRESHOLD cfg)))"
  by (simp add: categorize_def)


lemma calculate_discount_premium_rows:
  assumes "calculate_discount_premium cfg self = Inr (df, self')"
  obtains old where "merged_df self = Some old" "stage old \<noteq> Merged"
    "rows df = map (\<lambda>r. r\<lparr> discount_premium := reddit_formula r,
                        value_category := categorize cfg (reddit_formula r),
                        interpretation_str := interpret_discount (reddit_formula r) \<rparr>) (rows old)"
    "stage df = Classified" "self' = self\<lparr> merged_df := Some df \<rparr>"
  using assms
  by (auto simp: calculate_discount_premium_def Let_def split: option.splits if_splits)



text \<open>
  Claim C2. The formula is the one the claim gives, and no error is raised, but the
  case \<open>forecasted_normalized = 0\<close> is not guarded: the row stays in the table and
  is classified from an infinite or NaN \<open>discount_premium\<close>. In \<open>injured_league\<close>
  Alice (forecast 0, market value above 0) gets \<open>-inf\<close> and Overvalued; Carl
  (forecast 0, market value 0) gets NaN, the category Fair Value and the
  interpretation for a severely overvalued player.
\<close>

theorem zero_forecast_is_classified:
  "map labels (rows (fst (projr (pipeline fantasy_config injured_league)))) =
     [(''Alice'', Fin 100, Fin 0, NInf, ''Overvalued'', ''Severely overvalued - SELL''),
      (''Carl'', Fin 0, Fin 0, NaN, ''Fair Value'', ''Severely overvalued - SELL''),
      (''Bob'', Fin 200, Fin 300, Fin (100 / 3), ''Undervalued'', ''Severely undervalued - BUY'')]"
  by (simp add: injured_league_def labels_def pipeline_def table_defs merge_defs
      normalize_values_def mean_def calculate_discount_premium_def reddit_formula_def
      categorize_def interpret_discount_def fantasy_config_def fl_sub_def fl_gt_def inf_of_def)

text \<open>
  Claim C4. The merge drops the rows without a raw perceived value or without a
  forecasted value, and only then overwrites \<open>perceived_value\<close> with the adjusted
  value. A player with a raw value and no adjusted value passes the filter and
  leaves the merge with a null \<open>perceived_value\<close>.
\<close>

theorem merge_keeps_null_adjusted:
  "merge_data_sources unadjusted_league
     = Inr (unadjusted_merged, unadjusted_league\<lparr> merged_df := Some unadjusted_merged \<rparr>) \<and>
   map perceived_value (rows unadjusted_merged) = [NaN]"
  by (simp add: unadjusted_league_def unadjusted_merged_def table_defs merge_defs)

section \<open>The merge\<close>

lemma merge_data_sources_Inr:
  assumes "merge_data_sources self = Inr (df, self')"
  shows "rows df = map (\<lambda>r. r\<lparr> perceived_value := perceived_value_adjusted r \<rparr>)
           (dropna (merge_forecasted
              (merge_perceived (roster_df self) (p_rows (perceived_df self)))
              (forecast_column (forecasted_df self)) (f_rows (forecasted_df self))))"
    and "stage df = Merged"
    and "self' = self\<lparr> merged_df := Some df \<rparr>"
  using assms
  by (auto simp: merge_data_sources_def forecast_column_def Let_def roster_columns_def
      split: option.splits if_splits)

lemma merge_perceived_row:
  assumes "r \<in> set (merge_perceived left right)"
  shows "\<exists>l \<in> set left. player_name r = r_player_name l \<and>
           (perceived_value r = NaN \<or>
            (\<exists>p \<in> set right. p_player_name p = r_player_name l \<and>
               perceived_value r = p_perceived_value p \<and>
               perceived_value_adjusted r = p_perceived_value_adjusted p))"
  using assms by (fastforce simp: merge_perceived_def Let_def split: if_splits)

lemma merge_forecasted_row:
  assumes "r \<in> set (merge_forecasted left col right)"
  shows "\<exists>d \<in> set left. player_name r = player_name d \<and>
           perceived_value r = perceived_value d \<and>
           perceived_value_adjusted r = perceived_value_adjusted d \<and>
           (forecasted_value r = NaN \<or>
            (\<exists>f \<in> set right. f_player_name f = player_name d \<and> forecasted_value r = col f))"
  using assms by (fastforce simp: merge_forecasted_def Let_def split: if_splits)

lemma merged_row_sources:
  assumes "r \<in> set (dropna (merge_forecasted (merge_perceived left ps) col fs))"
  shows "\<exists>l \<in> set left. player_name r = r_player_name l \<and>
           (\<exists>p \<in> set ps. p_player_name p = r_player_name l \<and> \<not> isnan (p_perceived_value p) \<and>
              perceived_value r = p_perceived_value p \<and>
              perceived_value_adjusted r = p_perceived_value_adjusted p) \<and>
           (\<exists>f \<in> set fs. f_player_name f = r_player_name l \<and> \<not> isnan (col f) \<and>
              forecasted_value r = col f)"
proof -
  from assms have r: "r \<in> set (merge_forecasted (merge_perceived left ps) col fs)"
    and pv: "perceived_value r \<noteq> NaN" and fv: "forecasted_value r \<noteq> NaN"
    by (auto simp: dropna_def isnan_def)
  from merge_forecasted_row [OF r] pv fv obtain d f where
    d: "d \<in> set (merge_perceived left ps)" "player_name r = player_name d"
       "perceived_value r = perceived_value d"
       "perceived_value_adjusted r = perceived_value_adjusted d" and
    f: "f \<in> set fs" "f_player_name f = player_name d" "forecasted_value r = col f"
    by auto
  from merge_perceived_row [OF d(1)] pv d(3) obtain l p where
    l: "l \<in> set left" "player_name d = r_player_name l" and
    p: "p \<in> set ps" "p_player_name p = r_player_name l"
       "perceived_value d = p_perceived_value p"
       "perceived_value_adjusted d = p_perceived_value_adjusted p"
    by auto
  show ?thesis
    using l p d f pv fv by (auto simp: isnan_def intro!: bexI [of _ l] bexI [of _ p] bexI [of _ f])
qed

text \<open>
  Claim C5. In every row that \<open>merge_data_sources\<close> returns, \<open>perceived_value\<close> is the
  adjusted value of a row of the perceived table for that player (a row that has a
  raw value), not its raw value; and the normalization that follows computes
  \<open>perceived_normalized\<close> from the adjusted values and their mean.
\<close>

theorem adjusted_supersedes:
  assumes "merge_data_sources self = Inr (df, self')"
  shows "(\<forall>r \<in> set (rows df).
            perceived_value r = perceived_value_adjusted r \<and>
            (\<exists>p \<in> set (p_rows (perceived_df self)).
               p_player_name p = player_name r \<and> \<not> isnan (p_perceived_value p) \<and>
               perceived_value r = p_perceived_value_adjusted p)) \<and>
         (\<exists>out self''. normalize_values self' = Inr (out, self'') \<and>
            map perceived_normalized (rows out) =
              map (\<lambda>r. fl_mul (fl_div (perceived_value_adjusted r)
                                  (mean (map perceived_value_adjusted (rows df)))) (Fin 100))
                (rows df))"
proof (intro conjI ballI)
  note rs = merge_data_sources_Inr(1) [OF assms]
  note st = merge_data_sources_Inr(3) [OF assms]
  fix r assume "r \<in> set (rows df)"
  then obtain r0 where r0: "r0 \<in> set (dropna (merge_forecasted
              (merge_perceived (roster_df self) (p_rows (perceived_df self)))
              (forecast_column (forecasted_df self)) (f_rows (forecasted_df self))))"
    and r: "r = r0\<lparr> perceived_value := perceived_value_adjusted r0 \<rparr>"
    unfolding rs by auto
  from r show "perceived_value r = perceived_value_adjusted r" by simp
  from merged_row_sources [OF r0] r
  show "\<exists>p \<in> set (p_rows (perceived_df self)).
               p_player_name p = player_name r \<and> \<not> isnan (p_perceived_value p) \<and>
               perceived_value r = p_perceived_value_adjusted p"
    by auto
next
  note rs = merge_data_sources_Inr(1) [OF assms]
  note st = merge_data_sources_Inr(3) [OF assms]
  have eq: "map perceived_value (rows df) = map perceived_value_adjusted (rows df)"
    unfolding rs by simp
  show "\<exists>out self''. normalize_values self' = Inr (out, self'') \<and>
            map perceived_normalized (rows out) =
              map (\<lambda>r. fl_mul (fl_div (perceived_value_adjusted r)
                                  (mean (map perceived_value_adjusted (rows df)))) (Fin 100))
                (rows df)"
    unfolding st normalize_values_def
    apply (simp add: Let_def comp_def eq)
    unfolding rs by simp
qed


theorem adjusted_supersedes_witness:
  "merge_data_sources league = Inr (league_merged, league\<lparr> merged_df := Some league_merged \<rparr>) \<and>
   valued ''Alice'' (Fin 190) (Fin 95) \<in> set (p_rows (perceived_df league)) \<and>
   map perceived_value (rows league_merged) = [Fin 95, Fin 105] \<and>
   map perceived_value_adjusted (rows league_merged) = [Fin 95, Fin 105] \<and>
   normalize_values (league\<lparr> merged_df := Some league_merged \<rparr>)
     = Inr (league_normalized, league\<lparr> merged_df := Some league_normalized \<rparr>) \<and>
   map perceived_normalized (rows league_normalized) = [Fin 95, Fin 105]"
proof -
  have h1: "valued ''Alice'' (Fin 190) (Fin 95) \<in> set (p_rows (perceived_df league))"
    by (simp add: league_def TradeAnalyzer_def)
  have h2: "map perceived_value (rows league_merged) = [Fin 95, Fin 105]"
    "map perceived_value_adjusted (rows league_merged) = [Fin 95, Fin 105]"
    by (simp_all add: league_merged_def merged_row_def)
  have h3: "map perceived_normalized (rows league_normalized) = [Fin 95, Fin 105]"
    by (simp add: league_normalized_def merged_row_def)
  show ?thesis
    using adjusted_supersedes [OF league_merge] league_merge league_normalize h1 h2 h3
    by simp
qed

section \<open>No player with complete data\<close>

lemma no_coverage_no_rows:
  assumes "\<forall>l \<in> set roster. \<not> complete_coverage perceived forecasted l"
  shows "dropna (merge_forecasted (merge_perceived roster (p_rows perceived))
           (forecast_column forecasted) (f_rows forecasted)) = []"
proof (rule ccontr)
  assume "dropna (merge_forecasted (merge_perceived roster (p_rows perceived))
           (forecast_column forecasted) (f_rows forecasted)) \<noteq> []"
  then obtain r where "r \<in> set (dropna (merge_forecasted (merge_perceived roster (p_rows perceived))
           (forecast_column forecasted) (f_rows forecasted)))"
    by (meson last_in_set)
  from merged_row_sources [OF this] obtain l where "l \<in> set roster"
    "complete_coverage perceived forecasted l"
    unfolding complete_coverage_def by blast
  with assms show False by blast
qed

text \<open>
  Claim C8, as amended. When no rostered player has complete coverage and the
  tables have the columns the merge reads, \<open>merge_data_sources\<close> raises nothing: it
  returns the merged table with no rows and stores it. It is the caller \<open>main\<close> that
  tests the returned table and ends the run with \<^verbatim>\<open>sys.exit(1)\<close>.
\<close>

theorem no_complete_data:
  assumes "merge_data_sources (TradeAnalyzer roster perceived forecasted) = Inr (df, self')"
    and "\<forall>l \<in> set roster. \<not> complete_coverage perceived forecasted l"
  shows "df = \<lparr> stage = Merged, rows = [] \<rparr> \<and>
         self' = (TradeAnalyzer roster perceived forecasted)\<lparr> merged_df := Some df \<rparr> \<and>
         main_analysis cfg roster perceived forecasted = Inl (SystemExit 1)"
proof -
  have "rows df = []"
    using merge_data_sources_Inr(1) [OF assms(1)] no_coverage_no_rows [OF assms(2)]
    by (simp add: TradeAnalyzer_def)
  with merge_data_sources_Inr(2) [OF assms(1)] have df: "df = \<lparr> stage = Merged, rows = [] \<rparr>"
    by (cases df) simp
  have "main_analysis cfg roster perceived forecasted = Inl (SystemExit 1)"
    by (simp add: main_analysis_def assms(1) df empty_def)
  with df merge_data_sources_Inr(3) [OF assms(1)] show ?thesis by simp
qed

lemma carol_not_covered: "\<not> complete_coverage market projections (rostered ''Carol'' ''RB'' ''TeamX'')"
  by (simp add: complete_coverage_def market_def projections_def valued_def projected_def
      rostered_def)

lemma carol_merge:
  "merge_data_sources (TradeAnalyzer carol_roster market projections)
     = Inr (no_rows, (TradeAnalyzer carol_roster market projections)\<lparr> merged_df := Some no_rows \<rparr>)"
  by (simp add: carol_roster_def market_def projections_def no_rows_def table_defs merge_defs)

theorem no_complete_data_witness:
  "merge_data_sources (TradeAnalyzer carol_roster market projections)
     = Inr (no_rows, (TradeAnalyzer carol_roster market projections)\<lparr> merged_df := Some no_rows \<rparr>) \<and>
   no_rows = \<lparr> stage = Merged, rows = [] \<rparr> \<and>
   main_analysis fantasy_config carol_roster market projections = Inl (SystemExit 1)"
proof -
  have h: "\<forall>l \<in> set carol_roster. \<not> complete_coverage market projections l"
    using carol_not_covered by (simp add: carol_roster_def)
  show ?thesis
    using no_complete_data [OF carol_merge h, of fantasy_config] carol_merge by simp
qed

text \<open>
  Claim C8 as stated fails: Carol is the only rostered player and is in neither
  value table, and \<open>merge_data_sources\<close> returns normally, with the empty table as
  its result.
\<close>

theorem merge_returns_empty_counterexample:
  "\<not> complete_coverage market projections (rostered ''Carol'' ''RB'' ''TeamX'') \<and>
   carol_roster = [rostered ''Carol'' ''RB'' ''TeamX''] \<and>
   \<not> isl (merge_data_sources (TradeAnalyzer carol_roster market projections)) \<and>
   rows (fst (projr (merge_data_sources (TradeAnalyzer carol_roster market projections)))) = []"
proof -
  have a: "carol_roster = [rostered ''Carol'' ''RB'' ''TeamX'']"
    by (simp add: carol_roster_def)
  have b: "\<not> isl (merge_data_sources (TradeAnalyzer carol_roster market projections))"
    by (simp add: carol_merge)
  have c: "rows (fst (projr (merge_data_sources (TradeAnalyzer carol_roster market projections)))) = []"
    by (simp add: carol_merge no_rows_def)
  show ?thesis using carol_not_covered a b c by blast
qed

section \<open>Rerunning the pipeline\<close>

lemma merge_ignores_merged_df:
  "merge_data_sources (self\<lparr> merged_df := m \<rparr>) = merge_data_sources self"
  by (simp add: merge_data_sources_def Let_def split: option.split)

lemma normalize_values_state:
  "normalize_values self = Inr (df, self') \<Longrightarrow> self' = self\<lparr> merged_df := Some df \<rparr>"
  by (auto simp: normalize_values_def Let_def split: option.splits)

lemma calculate_discount_premium_state:
  "calculate_discount_premium cfg self = Inr (df, self') \<Longrightarrow> self' = self\<lparr> merged_df := Some df \<rparr>"
  by (auto simp: calculate_discount_premium_def Let_def split: option.splits if_splits)

lemma pipeline_ignores_merged_df:
  "pipeline cfg (self\<lparr> merged_df := m \<rparr>) = pipeline cfg self"
  by (simp add: pipeline_def merge_ignores_merged_df)

lemma pipeline_state:
  assumes "pipeline cfg self = Inr (df, self')"
  shows "self' = self\<lparr> merged_df := Some df \<rparr>"
proof -
  from assms obtain d1 s1 d2 s2 where
    m: "merge_data_sources self = Inr (d1, s1)" and
    n: "normalize_values s1 = Inr (d2, s2)" and
    c: "calculate_discount_premium cfg s2 = Inr (df, self')"
    by (auto simp: pipeline_def split: sum.splits)
  from merge_data_sources_Inr(3) [OF m] normalize_values_state [OF n]
    calculate_discount_premium_state [OF c]
  show ?thesis by simp
qed

text \<open>
  Claim C9. The analyzer keeps one piece of state between calls, \<open>merged_df\<close>, and
  the pipeline (merge, normalize, classify) does not read what it finds there: its
  outcome, table or error, is the same whatever \<open>merged_df\<close> held before. So a
  second run on the analyzer that the first run left behind returns the same table
  and leaves the same analyzer, and the three input tables are unchanged.
\<close>

theorem pipeline_rerun:
  "pipeline cfg (self\<lparr> merged_df := m \<rparr>) = pipeline cfg self \<and>
   (pipeline cfg self = Inr (df, self') \<longrightarrow>
      pipeline cfg self' = Inr (df, self') \<and>
      roster_df self' = roster_df self \<and>
      perceived_df self' = perceived_df self \<and>
      forecasted_df self' = forecasted_df self)"
proof (intro conjI impI)
  show "pipeline cfg (self\<lparr> merged_df := m \<rparr>) = pipeline cfg self"
    by (rule pipeline_ignores_merged_df)
next
  assume p: "pipeline cfg self = Inr (df, self')"
  note st = pipeline_state [OF p]
  show "pipeline cfg self' = Inr (df, self')"
    unfolding st pipeline_ignores_merged_df using p st by simp
  show "roster_df self' = roster_df self" "perceived_df self' = perceived_df self"
    "forecasted_df self' = forecasted_df self"
    by (simp_all add: st)
qed

theorem pipeline_rerun_witness:
  "pipeline fantasy_config league
     = Inr (league_classified, league\<lparr> merged_df := Some league_classified \<rparr>) \<and>
   pipeline fantasy_config (league\<lparr> merged_df := Some league_classified \<rparr>)
     = Inr (league_classified, league\<lparr> merged_df := Some league_classified \<rparr>)"
  using pipeline_rerun [where cfg = fantasy_config and self = league and m = None
      and df = league_classified and self' = "league\<lparr> merged_df := Some league_classified \<rparr>"]
    league_pipeline
  by simp

section \<open>Trade targets\<close>

lemma mset_sort_values: "mset (sort_values col ascending xs) = mset xs"
  by (simp add: sort_values_def)

lemma set_sort_values: "set (sort_values col ascending xs) = set xs"
  by (simp add: sort_values_def)

lemma desc_key_le: "a \<noteq> NaN \<Longrightarrow> b \<noteq> NaN \<Longrightarrow> desc_key a \<le> desc_key b \<Longrightarrow> fl_ge a b"
  by (cases a; cases b) (auto simp: fl_ge_def)

lemma sorted_sort_values_desc:
  assumes "\<forall>x \<in> set xs. col x \<noteq> NaN"
  shows "sorted_wrt (\<lambda>a b. fl_ge (col a) (col b)) (sort_values col False xs)"
proof -
  have "sorted (map (\<lambda>r. desc_key (col r)) (sort_key (\<lambda>r. desc_key (col r)) xs))"
    by (rule sorted_sort_key)
  then have "sorted_wrt (\<lambda>a b. desc_key (col a) \<le> desc_key (col b))
      (sort_key (\<lambda>r. desc_key (col r)) xs)"
    by (simp add: sorted_map)
  then show ?thesis
    unfolding sort_values_def using assms
    by (auto elim!: sorted_wrt_mono_rel [rotated] intro: desc_key_le)
qed

lemma classified_category:
  assumes "calculate_discount_premium cfg self0 = Inr (df, self)" and "r \<in> set (rows df)"
  shows "value_category r = ''Undervalued'' \<longleftrightarrow>
         fl_gt (discount_premium r) (Fin (MIN_DISCOUNT_THRESHOLD cfg))"
proof -
  from assms(1) obtain old :: frame where
    rs: "rows df = map (\<lambda>r. r\<lparr> discount_premium := reddit_formula r,
                        value_category := categorize cfg (reddit_formula r),
                        interpretation_str := interpret_discount (reddit_formula r) \<rparr>) (rows old)"
    by (auto elim: calculate_discount_premium_rows)
  with assms(2) obtain r0 where
    "discount_premium r = reddit_formula r0" "value_category r = categorize cfg (reddit_formula r0)"
    by auto
  then show ?thesis using categorize_cases [of cfg "reddit_formula r0"] by simp
qed

lemma find_trade_targets_rows:
  assumes "merged_df self = Some df" and "stage df = Classified"
  shows "find_trade_targets cfg self your_team position_filter =
     Inr \<lparr> stage = Classified, rows = sort_values discount_premium False
       (filter (\<lambda>r. team_name r \<noteq> your_team \<and>
                    fl_gt (discount_premium r) (Fin (MIN_DISCOUNT_THRESHOLD cfg)) \<and>
                    (case position_filter of None \<Rightarrow> True | Some p \<Rightarrow> p = [] \<or> position r = p) \<and>
                    player_name r \<notin> set (UNTOUCHABLE_PLAYERS cfg)) (rows df)) \<rparr>"
proof -
  have "filter (\<lambda>r. player_name r \<notin> set (UNTOUCHABLE_PLAYERS cfg)) xs = xs"
    if "UNTOUCHABLE_PLAYERS cfg = []" for xs :: "row list"
    using that by simp
  then show ?thesis
    using assms
    by (cases position_filter)
       (auto simp: find_trade_targets_def Let_def conj_commute conj_left_commute
             intro!: arg_cong [where f = "sort_values discount_premium False"] filter_cong)
qed

text \<open>
  Claim C7. On the table that \<open>calculate_discount_premium\<close> left in the analyzer,
  \<open>find_trade_targets\<close> returns, as a multiset, exactly the rows of another team
  whose category is Undervalued, of the given position when a position filter is
  supplied (\<^verbatim>\<open>None\<close> and the empty string both mean no filter), whose player is
  not in the untouchable list; and the rows come in descending order of
  \<open>discount_premium\<close>.
\<close>

theorem find_trade_targets_spec:
  assumes "calculate_discount_premium cfg self0 = Inr (df, self)"
  shows "\<exists>out. find_trade_targets cfg self your_team position_filter = Inr out \<and>
    mset (rows out) =
      filter_mset (\<lambda>r. team_name r \<noteq> your_team \<and> value_category r = ''Undervalued'' \<and>
                        (case position_filter of None \<Rightarrow> True
                         | Some p \<Rightarrow> p = [] \<or> position r = p) \<and>
                        player_name r \<notin> set (UNTOUCHABLE_PLAYERS cfg))
        (mset (rows df)) \<and>
    sorted_wrt (\<lambda>a b. fl_ge (discount_premium a) (discount_premium b)) (rows out)"
proof -
  from assms have st: "merged_df self = Some df" "stage df = Classified"
    by (auto elim: calculate_discount_premium_rows)
  let ?P = "\<lambda>r. team_name r \<noteq> your_team \<and>
                    fl_gt (discount_premium r) (Fin (MIN_DISCOUNT_THRESHOLD cfg)) \<and>
                    (case position_filter of None \<Rightarrow> True | Some p \<Rightarrow> p = [] \<or> position r = p) \<and>
                    player_name r \<notin> set (UNTOUCHABLE_PLAYERS cfg)"
  let ?out = "\<lparr> stage = Classified, rows = sort_values discount_premium False (filter ?P (rows df)) \<rparr>"
  have f: "find_trade_targets cfg self your_team position_filter = Inr ?out"
    by (rule find_trade_targets_rows [OF st])
  have m: "mset (rows ?out) =
      filter_mset (\<lambda>r. team_name r \<noteq> your_team \<and> value_category r = ''Undervalued'' \<and>
                        (case position_filter of None \<Rightarrow> True
                         | Some p \<Rightarrow> p = [] \<or> position r = p) \<and>
                        player_name r \<notin> set (UNTOUCHABLE_PLAYERS cfg))
        (mset (rows df))"
    using classified_category [OF assms]
    by (auto simp: mset_sort_values intro!: filter_mset_cong)
  have "\<forall>x \<in> set (filter ?P (rows df)). discount_premium x \<noteq> NaN"
    using fl_gt_not_nan by auto
  then have s: "sorted_wrt (\<lambda>a b. fl_ge (discount_premium a) (discount_premium b)) (rows ?out)"
    using sorted_sort_values_desc [of "filter ?P (rows df)" discount_premium] by simp
  from f m s show ?thesis by blast
qed

theorem find_trade_targets_spec_witness:
  "calculate_discount_premium fantasy_config (league\<lparr> merged_df := Some league_normalized \<rparr>)
     = Inr (league_classified, league\<lparr> merged_df := Some league_classified \<rparr>) \<and>
   find_trade_targets fantasy_config (league\<lparr> merged_df := Some league_classified \<rparr>) ''TeamX'' None
     = Inr \<lparr> stage = Classified, rows = [dave] \<rparr> \<and>
   find_trade_targets fantasy_config (league\<lparr> merged_df := Some league_classified \<rparr>) ''TeamX''
       (Some ''K'')
     = Inr \<lparr> stage = Classified, rows = [] \<rparr>"
proof -
  have a: "find_trade_targets fantasy_config (league\<lparr> merged_df := Some league_classified \<rparr>)
      ''TeamX'' None = Inr \<lparr> stage = Classified, rows = [dave] \<rparr>"
    by (simp add: find_trade_targets_def league_classified_def alice_def dave_def merged_row_def
        fantasy_config_def fl_gt_def sort_values_def)
  have b: "find_trade_targets fantasy_config (league\<lparr> merged_df := Some league_classified \<rparr>)
      ''TeamX'' (Some ''K'') = Inr \<lparr> stage = Classified, rows = [] \<rparr>"
    by (simp add: find_trade_targets_def league_classified_def alice_def dave_def merged_row_def
        fantasy_config_def fl_gt_def sort_values_def)
  show ?thesis
    using find_trade_targets_spec [OF league_classify, of "''TeamX''" None] a b league_classify
    by simp
qed

section \<open>Trade suggestions\<close>

lemma benched_pipeline:
  "pipeline fantasy_config benched_league
     = Inr (\<lparr> stage = Classified, rows = [benched_alice, rising_dave] \<rparr>, benched_league)"
  by (simp add: benched_league_def benched_alice_def rising_dave_def pipeline_def table_defs
      merge_defs normalize_values_def mean_def calculate_discount_premium_def reddit_formula_def
      categorize_def interpret_discount_def fantasy_config_def fl_sub_def fl_gt_def inf_of_def)

lemmas suggest_defs = suggest_trade_pairs_def analyze_team_def find_trade_targets_def
  merged_row_def tolerant_config_def fantasy_config_def fl_gt_def fl_ge_def sort_values_def
  empty_def similar_targets_def gain_pct_def py_truediv_def fl_sub_def head_def Let_def

lemma league_suggest:
  "suggest_trade_pairs tolerant_config (league\<lparr> merged_df := Some league_classified \<rparr>) ''TeamX'' 10
     = Inr [alice_for_dave]"
  by (simp add: suggest_defs league_classified_def alice_def dave_def alice_for_dave_def)

lemma benched_suggest:
  "suggest_trade_pairs tolerant_config benched_league ''TeamX'' 10 = Inr [benched_alice_for_dave]"
  by (simp add: suggest_defs benched_league_def benched_alice_def rising_dave_def
      benched_alice_for_dave_def)

lemma gain_pct_guard:
  "gain_pct gain your_player =
     Inr (if fl_gt (forecasted_normalized your_player) (Fin 0)
          then fl_mul (fl_div gain (forecasted_normalized your_player)) (Fin 100)
          else Fin 0)"
  by (auto simp: gain_pct_def py_truediv_def fl_gt_def)

lemma targets_loop_emits:
  assumes "targets_loop your_player ts = Inr out" and "t \<in> set out"
  shows "\<exists>target \<in> set ts.
           give_perceived t = perceived_normalized your_player \<and>
           give_forecasted t = forecasted_normalized your_player \<and>
           get_perceived t = perceived_normalized target \<and>
           get_forecasted t = forecasted_normalized target \<and>
           value_gain t = fl_sub (forecasted_normalized target) (forecasted_normalized your_player) \<and>
           fl_gt (value_gain t) (Fin 5) \<and>
           value_gain_pct t =
             (if fl_gt (forecasted_normalized your_player) (Fin 0)
              then fl_mul (fl_div (value_gain t) (forecasted_normalized your_player)) (Fin 100)
              else Fin 0)"
  using assms
proof (induction ts arbitrary: out)
  case Nil
  then show ?case by simp
next
  case (Cons target ts)
  show ?case
  proof (cases "fl_gt (fl_sub (forecasted_normalized target) (forecasted_normalized your_player)) (Fin 5)")
    case False
    with Cons.prems have "targets_loop your_player ts = Inr out" by (simp add: Let_def)
    from Cons.IH [OF this Cons.prems(2)] show ?thesis by auto
  next
    case True
    with Cons.prems(1) obtain rest where
      rest: "targets_loop your_player ts = Inr rest" and
      out: "out =
         \<lparr> give_player = player_name your_player,
           give_position = position your_player,
           give_perceived = perceived_normalized your_player,
           give_forecasted = forecasted_normalized your_player,
           give_discount = discount_premium your_player,
           get_player = player_name target,
           get_position = position target,
           get_team = team_name target,
           get_perceived = perceived_normalized target,
           get_forecasted = forecasted_normalized target,
           get_discount = discount_premium target,
           value_gain = fl_sub (forecasted_normalized target) (forecasted_normalized your_player),
           value_gain_pct =
             (if fl_gt (forecasted_normalized your_player) (Fin 0)
              then fl_mul (fl_div (fl_sub (forecasted_normalized target)
                     (forecasted_normalized your_player)) (forecasted_normalized your_player)) (Fin 100)
              else Fin 0) \<rparr> # rest"
      by (auto simp: Let_def gain_pct_guard split: sum.splits)
    from Cons.prems(2) out consider (hd) "t = hd out" | (tl) "t \<in> set rest" by auto
    then show ?thesis
    proof cases
      case hd
      with out True show ?thesis by simp
    next
      case tl
      from Cons.IH [OF rest tl] show ?thesis by auto
    qed
  qed
qed

lemma targets_loop_returns: "\<exists>out. targets_loop your_player ts = Inr out"
  by (induction ts) (auto simp: Let_def gain_pct_guard)

lemma players_loop_emits:
  assumes "players_loop cfg trade_targets ys = Inr out" and "t \<in> set out"
  shows "\<exists>tolerance your_player target.
           VALUE_MATCH_TOLERANCE cfg = Some tolerance \<and> your_player \<in> set ys \<and>
           target \<in> set (similar_targets tolerance your_player trade_targets) \<and>
           give_perceived t = perceived_normalized your_player \<and>
           give_forecasted t = forecasted_normalized your_player \<and>
           get_perceived t = perceived_normalized target \<and>
           get_forecasted t = forecasted_normalized target \<and>
           value_gain t = fl_sub (forecasted_normalized target) (forecasted_normalized your_player) \<and>
           fl_gt (value_gain t) (Fin 5) \<and>
           value_gain_pct t =
             (if fl_gt (forecasted_normalized your_player) (Fin 0)
              then fl_mul (fl_div (value_gain t) (forecasted_normalized your_player)) (Fin 100)
              else Fin 0)"
  using assms
proof (induction ys arbitrary: out)
  case Nil
  then show ?case by simp
next
  case (Cons y ys)
  from Cons.prems(1) obtain tolerance found rest where
    tol: "VALUE_MATCH_TOLERANCE cfg = Some tolerance" and
    found: "targets_loop y (take 3 (similar_targets tolerance y trade_targets)) = Inr found" and
    rest: "players_loop cfg trade_targets ys = Inr rest" and
    out: "out = found @ rest"
    by (auto split: option.splits sum.splits)
  from Cons.prems(2) out consider (found) "t \<in> set found" | (rest) "t \<in> set rest" by auto
  then show ?case
  proof cases
    case found
    from targets_loop_emits [OF \<open>targets_loop y _ = Inr found\<close> found]
    obtain target where
      "target \<in> set (take 3 (similar_targets tolerance y trade_targets))" and
      props: "give_perceived t = perceived_normalized y"
        "give_forecasted t = forecasted_normalized y"
        "get_perceived t = perceived_normalized target"
        "get_forecasted t = forecasted_normalized target"
        "value_gain t = fl_sub (forecasted_normalized target) (forecasted_normalized y)"
        "fl_gt (value_gain t) (Fin 5)"
        "value_gain_pct t =
             (if fl_gt (forecasted_normalized y) (Fin 0)
              then fl_mul (fl_div (value_gain t) (forecasted_normalized y)) (Fin 100)
              else Fin 0)"
      by blast
    then have "target \<in> set (similar_targets tolerance y trade_targets)"
      by (meson in_set_takeD)
    with tol props show ?thesis
      by (intro exI [of _ tolerance] exI [of _ y] exI [of _ target]) simp
  next
    case rest
    from Cons.IH [OF \<open>players_loop cfg trade_targets ys = Inr rest\<close> rest]
    show ?thesis by (metis list.set_intros(2))
  qed
qed

lemma players_loop_error:
  "players_loop cfg trade_targets ys = Inl e \<Longrightarrow> e = AttributeError ''VALUE_MATCH_TOLERANCE''"
proof (induction ys)
  case Nil
  then show ?case by simp
next
  case (Cons y ys)
  show ?case
  proof (cases "VALUE_MATCH_TOLERANCE cfg")
    case None
    with Cons.prems show ?thesis by simp
  next
    case (Some tolerance)
    obtain found where
      "targets_loop y (take 3 (similar_targets tolerance y trade_targets)) = Inr found"
      using targets_loop_returns by blast
    with Cons.prems Some have "players_loop cfg trade_targets ys = Inl e"
      by (simp split: sum.splits)
    then show ?thesis by (rule Cons.IH)
  qed
qed

lemma set_head: "set (head n xs) \<subseteq> set xs"
  by (auto simp: head_def dest: in_set_takeD)

lemma suggest_trade_pairs_emits:
  assumes "suggest_trade_pairs cfg self your_team max_suggestions = Inr out" and "t \<in> set out"
  shows "\<exists>tolerance (your_player :: row) (target :: row).
           VALUE_MATCH_TOLERANCE cfg = Some tolerance \<and>
           fl_ge (perceived_normalized target)
                 (fl_mul (perceived_normalized your_player) (Fin (1 - tolerance))) \<and>
           fl_le (perceived_normalized target)
                 (fl_mul (perceived_normalized your_player) (Fin (1 + tolerance))) \<and>
           give_perceived t = perceived_normalized your_player \<and>
           give_forecasted t = forecasted_normalized your_player \<and>
           get_perceived t = perceived_normalized target \<and>
           get_forecasted t = forecasted_normalized target \<and>
           value_gain t = fl_sub (forecasted_normalized target) (forecasted_normalized your_player) \<and>
           fl_gt (value_gain t) (Fin 5) \<and>
           value_gain_pct t =
             (if fl_gt (forecasted_normalized your_player) (Fin 0)
              then fl_mul (fl_div (value_gain t) (forecasted_normalized your_player)) (Fin 100)
              else Fin 0)"
proof -
  from assms obtain ov tt :: frame and suggestions where
    loop: "players_loop cfg (rows tt) (rows ov) = Inr suggestions" and
    out: "out = head max_suggestions (sort_values value_gain False suggestions)"
    by (auto simp: suggest_trade_pairs_def split: sum.splits prod.splits if_splits)
  from assms(2) out have "t \<in> set suggestions"
    using set_head [of max_suggestions "sort_values value_gain False suggestions"]
    by (auto simp: set_sort_values)
  from players_loop_emits [OF loop this] obtain tolerance and your_player target :: row where
    tol: "VALUE_MATCH_TOLERANCE cfg = Some tolerance" and
    sim: "target \<in> set (similar_targets tolerance your_player (rows tt))" and
    props: "give_perceived t = perceived_normalized your_player"
      "give_forecasted t = forecasted_normalized your_player"
      "get_perceived t = perceived_normalized target"
      "get_forecasted t = forecasted_normalized target"
      "value_gain t = fl_sub (forecasted_normalized target) (forecasted_normalized your_player)"
      "fl_gt (value_gain t) (Fin 5)"
      "value_gain_pct t =
             (if fl_gt (forecasted_normalized your_player) (Fin 0)
              then fl_mul (fl_div (value_gain t) (forecasted_normalized your_player)) (Fin 100)
              else Fin 0)"
    by blast
  from sim have
    "fl_ge (perceived_normalized target)
       (fl_mul (perceived_normalized your_player) (Fin (1 - tolerance)))"
    "fl_le (perceived_normalized target)
       (fl_mul (perceived_normalized your_player) (Fin (1 + tolerance)))"
    by (simp_all add: similar_targets_def)
  with tol props have c:
    "VALUE_MATCH_TOLERANCE cfg = Some tolerance \<and>
     fl_ge (perceived_normalized target)
           (fl_mul (perceived_normalized your_player) (Fin (1 - tolerance))) \<and>
     fl_le (perceived_normalized target)
           (fl_mul (perceived_normalized your_player) (Fin (1 + tolerance))) \<and>
     give_perceived t = perceived_normalized your_player \<and>
     give_forecasted t = forecasted_normalized your_player \<and>
     get_perceived t = perceived_normalized target \<and>
     get_forecasted t = forecasted_normalized target \<and>
     value_gain t = fl_sub (forecasted_normalized target) (forecasted_normalized your_player) \<and>
     fl_gt (value_gain t) (Fin 5) \<and>
     value_gain_pct t =
       (if fl_gt (forecasted_normalized your_player) (Fin 0)
        then fl_mul (fl_div (value_gain t) (forecasted_normalized your_player)) (Fin 100)
        else Fin 0)"
    by simp
  show ?thesis
    apply (rule exI [of _ tolerance])
    apply (rule exI [of _ your_player])
    apply (rule exI [of _ target])
    apply (rule c)
    done
qed

lemma suggest_trade_pairs_error:
  assumes "suggest_trade_pairs cfg self your_team max_suggestions = Inl e"
  shows "e \<noteq> ZeroDivisionError"
proof -
  have a: "analyze_team cfg self your_team = Inl e \<Longrightarrow> e \<noteq> ZeroDivisionError" for e
    by (auto simp: analyze_team_def Let_def split: option.splits if_splits)
  have b: "find_trade_targets cfg self your_team None = Inl e \<Longrightarrow> e \<noteq> ZeroDivisionError" for e
    by (auto simp: find_trade_targets_def Let_def split: option.splits if_splits)
  from assms show ?thesis
    using a b players_loop_error
    by (fastforce simp: suggest_trade_pairs_def split: sum.splits prod.splits if_splits)
qed



text \<open>
  Normalized values of finite, non-negative values are finite or NaN (NaN when all
  the values are 0), never infinite.
\<close>

lemma filter_all_Fin: "filter (\<lambda>x. \<not> isnan x) (map Fin vs) = map Fin vs"
  by (induction vs) (auto simp: isnan_def)

lemma mean_map_Fin: "vs \<noteq> [] \<Longrightarrow> mean (map Fin vs) = Fin (sum_list vs / real (length vs))"
  by (simp add: mean_def filter_all_Fin fl_sum_map_Fin)

lemma normalized_finite_or_nan:
  assumes "\<forall>v \<in> set vs. 0 \<le> v" and "v \<in> set vs"
  shows "fl_mul (fl_div (Fin v) (mean (map Fin vs))) (Fin 100) = NaN \<or>
         (\<exists>w. fl_mul (fl_div (Fin v) (mean (map Fin vs))) (Fin 100) = Fin w)"
proof -
  from assms(2) have ne: "vs \<noteq> []" by auto
  show ?thesis
  proof (cases "sum_list vs = 0")
    case True
    with assms have "v = 0"
      using sum_list_nonneg_eq_0_iff [of vs] by auto
    with True ne show ?thesis by (simp add: mean_map_Fin)
  next
    case False
    with ne show ?thesis by (simp add: mean_map_Fin)
  qed
qed



text \<open>
  Claim C10. \<open>suggest_trade_pairs\<close> never ends in a \<^verbatim>\<open>ZeroDivisionError\<close>, and in
  every suggestion it returns \<open>value_gain_pct\<close> is
  \<open>value_gain / give_forecasted * 100\<close> when \<open>give_forecasted\<close> is above 0, and 0
  otherwise.
\<close>

theorem value_gain_pct_guarded:
  "suggest_trade_pairs cfg self your_team max_suggestions \<noteq> Inl ZeroDivisionError \<and>
   (suggest_trade_pairs cfg self your_team max_suggestions = Inr out \<longrightarrow>
      (\<forall>t \<in> set out.
         value_gain_pct t =
           (if fl_gt (give_forecasted t) (Fin 0)
            then fl_mul (fl_div (value_gain t) (give_forecasted t)) (Fin 100)
            else Fin 0)))"
proof (intro conjI impI ballI)
  show "suggest_trade_pairs cfg self your_team max_suggestions \<noteq> Inl ZeroDivisionError"
    using suggest_trade_pairs_error by blast
next
  fix t
  assume "suggest_trade_pairs cfg self your_team max_suggestions = Inr out" and "t \<in> set out"
  from suggest_trade_pairs_emits [OF this] obtain your_player :: row where
    "give_forecasted t = forecasted_normalized your_player"
    "value_gain_pct t =
             (if fl_gt (forecasted_normalized your_player) (Fin 0)
              then fl_mul (fl_div (value_gain t) (forecasted_normalized your_player)) (Fin 100)
              else Fin 0)"
    by blast
  then show "value_gain_pct t =
           (if fl_gt (give_forecasted t) (Fin 0)
            then fl_mul (fl_div (value_gain t) (give_forecasted t)) (Fin 100)
            else Fin 0)"
    by simp
qed

theorem value_gain_pct_guarded_witness:
  "suggest_trade_pairs tolerant_config benched_league ''TeamX'' 10 = Inr [benched_alice_for_dave] \<and>
   give_forecasted benched_alice_for_dave = Fin 0 \<and>
   value_gain_pct benched_alice_for_dave = Fin 0 \<and>
   suggest_trade_pairs tolerant_config (league\<lparr> merged_df := Some league_classified \<rparr>) ''TeamX'' 10
     = Inr [alice_for_dave] \<and>
   give_forecasted alice_for_dave = Fin 50 \<and>
   value_gain alice_for_dave = Fin 100 \<and>
   value_gain_pct alice_for_dave = Fin 200"
proof -
  have a: "give_forecasted benched_alice_for_dave = Fin 0"
    "value_gain_pct benched_alice_for_dave = Fin 0"
    by (simp_all add: benched_alice_for_dave_def)
  have b: "give_forecasted alice_for_dave = Fin 50" "value_gain alice_for_dave = Fin 100"
    "value_gain_pct alice_for_dave = Fin 200"
    by (simp_all add: alice_for_dave_def)
  show ?thesis
    using value_gain_pct_guarded [of tolerant_config benched_league "''TeamX''" 10
        "[benched_alice_for_dave]"]
      value_gain_pct_guarded [of tolerant_config "league\<lparr> merged_df := Some league_classified \<rparr>"
        "''TeamX''" 10 "[alice_for_dave]"]
      benched_suggest league_suggest a b
    by simp
qed

end
